theory Spec2Isabelle
  imports Complex_Main "HOL-Library.Sublist"
begin

section \<open>JavaScript values read by the bar trace calculation\<close>

text \<open>
  \<^verbatim>\<open>src/traces/bar/calc.js\<close> reads a handful of trace attributes and treats them with
  JavaScript's own operators: truthiness (\<^verbatim>\<open>||\<close>, \<^verbatim>\<open>!!\<close>, \<^verbatim>\<open>if\<close>), strict equality
  with \<^verbatim>\<open>0\<close>, indexing and \<^verbatim>\<open>String(...)\<close>. The values are modelled by a datatype.
  Numbers are idealised as reals (\<open>+0\<close> and \<open>-0\<close> are both \<open>JNum 0\<close>), with \<open>JNaN\<close> apart.
\<close>

datatype jsval =
    JUndefined
  | JNull
  | JBool bool
  | JNum real
  | JNaN
  | JStr string
  | JArr "jsval list"

text \<open>ToBoolean: the falsy values are undefined, null, false, 0, NaN and the empty string.\<close>

fun truthy :: "jsval \<Rightarrow> bool" where
  "truthy JUndefined = False"
| "truthy JNull = False"
| "truthy (JBool b) = b"
| "truthy (JNum r) = (r \<noteq> 0)"
| "truthy JNaN = False"
| "truthy (JStr t) = (t \<noteq> [])"
| "truthy (JArr vs) = True"

text \<open>\<^verbatim>\<open>a || b\<close>: the left operand when it is truthy, the right one otherwise.\<close>

definition js_or :: "jsval \<Rightarrow> jsval \<Rightarrow> jsval" where
  "js_or a b = (if truthy a then a else b)"

text \<open>
  \<^verbatim>\<open>v[i]\<close> for an index \<open>i\<close>: an element of an array, a one-character string of a string,
  and undefined out of range or on a number or boolean. (On undefined and null the read
  throws; \<^verbatim>\<open>calc\<close> only indexes \<^verbatim>\<open>trace.ids\<close> after testing that it is truthy.)
\<close>

fun js_index :: "jsval \<Rightarrow> nat \<Rightarrow> jsval" where
  "js_index (JArr vs) i = (if i < length vs then vs ! i else JUndefined)"
| "js_index (JStr t) i = (if i < length t then JStr [t ! i] else JUndefined)"
| "js_index v i = JUndefined"

fun join_comma :: "string list \<Rightarrow> string" where
  "join_comma [] = []"
| "join_comma [t] = t"
| "join_comma (t # ts) = t @ '','' @ join_comma ts"

text \<open>
  \<^verbatim>\<open>String(v)\<close>. The decimal rendering of a number (Number::toString) is a primitive of the
  language and is taken as the parameter \<open>num2str\<close>. An array is its elements joined by
  commas, undefined and null elements giving the empty string.
\<close>

fun String_js :: "(real \<Rightarrow> string) \<Rightarrow> jsval \<Rightarrow> string" where
  "String_js num2str JUndefined = ''undefined''"
| "String_js num2str JNull = ''null''"
| "String_js num2str (JBool b) = (if b then ''true'' else ''false'')"
| "String_js num2str (JNum r) = num2str r"
| "String_js num2str JNaN = ''NaN''"
| "String_js num2str (JStr t) = t"
| "String_js num2str (JArr vs) =
     join_comma (map (\<lambda>v. if v = JUndefined \<or> v = JNull then [] else String_js num2str v) vs)"

section \<open>The bar trace calculation\<close>

text \<open>
  The attributes of a trace that \<^verbatim>\<open>calc\<close> reads itself are fields; every other attribute
  (\<^verbatim>\<open>x\<close>, \<^verbatim>\<open>y\<close>, \<^verbatim>\<open>text\<close>, ...) is only read by the collaborators, by name, and lives in
  \<open>attrs\<close>.
\<close>

record trace =
  xaxis :: jsval
  yaxis :: jsval
  base :: jsval
  orientation :: jsval
  ids :: jsval
  marker_color :: jsval
  marker_line_color :: jsval
  attrs :: "string \<Rightarrow> jsval"

text \<open>
  One record of the calculated data: \<^verbatim>\<open>{p: ..., s: ...}\<close>, the optional \<^verbatim>\<open>id\<close>, and the
  fields added later by the enrichment steps.
\<close>

record calcdatum =
  p :: jsval
  s :: jsval
  id_field :: "string option"
  extra :: "(string \<times> jsval) list"

text \<open>
  The modules \<^verbatim>\<open>calc.js\<close> requires are not part of the sources at hand; they are the
  parameters of the model.
  \<^item> \<open>getFromId\<close> is \<^verbatim>\<open>Axes.getFromId\<close>: the axis of an id, or nothing (undefined).
  \<^item> \<open>makeCalcdata\<close> is the axis method \<^verbatim>\<open>ax.makeCalcdata(trace, letter, msUTC)\<close>.
  \<^item> \<open>numberToString\<close> is the language's rendering of a number.
  \<^item> \<open>hasColorscale\<close> and \<open>colorscaleCalc\<close> are the colorscale helpers; the latter
    mutates the plot and the trace, which the model returns updated.
  \<^item> \<open>arraysToCalcdata\<close> and \<open>calcSelection\<close> are the two enrichment steps: they give,
    for the records, the trace and an index, the fields added to the record at that
    index (see \<open>enrich\<close> below).
  Effects of \<^verbatim>\<open>makeCalcdata\<close> on the axis itself are not modelled.
\<close>

record ('gd, 'ax) collaborators =
  getFromId :: "'gd \<Rightarrow> jsval \<Rightarrow> 'ax option"
  makeCalcdata :: "'ax \<Rightarrow> trace \<Rightarrow> string \<Rightarrow> bool \<Rightarrow> jsval list"
  numberToString :: "real \<Rightarrow> string"
  hasColorscale :: "trace \<Rightarrow> string \<Rightarrow> bool"
  colorscaleCalc :: "'gd \<Rightarrow> trace \<Rightarrow> jsval \<Rightarrow> string \<Rightarrow> string \<Rightarrow> 'gd \<times> trace"
  arraysToCalcdata :: "calcdatum list \<Rightarrow> trace \<Rightarrow> nat \<Rightarrow> (string \<times> jsval) list"
  calcSelection :: "calcdatum list \<Rightarrow> trace \<Rightarrow> nat \<Rightarrow> (string \<times> jsval) list"

text \<open>
  Calling \<^verbatim>\<open>makeCalcdata\<close> on an axis that \<^verbatim>\<open>getFromId\<close> did not find throws (a TypeError
  on undefined; the spec calls it UnknownAxisError). The error carries the id looked up.
\<close>

datatype calc_error = UnknownAxisError jsval

text \<open>\<^verbatim>\<open>var msUTC = !!(trace.base || trace.base === 0);\<close>\<close>

definition msUTC :: "trace \<Rightarrow> bool" where
  "msUTC tr = truthy (js_or (base tr) (JBool (base tr = JNum 0)))"

text \<open>
  The \<^verbatim>\<open>if(trace.orientation === 'h')\<close> statement: the pair \<open>(size, pos)\<close>. In the first
  branch the x axis is used first, in the second the y axis, so that is the axis whose
  absence is reported when both are missing.
\<close>

definition size_pos ::
  "('gd, 'ax) collaborators \<Rightarrow> 'gd \<Rightarrow> trace \<Rightarrow> calc_error + (jsval list \<times> jsval list)" where
  "size_pos env gd tr =
     (let xid = js_or (xaxis tr) (JStr ''x'');
          yid = js_or (yaxis tr) (JStr ''y'');
          xa = getFromId env gd xid;
          ya = getFromId env gd yid
      in if orientation tr = JStr ''h'' then
           (case xa of None \<Rightarrow> Inl (UnknownAxisError xid) | Some xa' \<Rightarrow>
            (case ya of None \<Rightarrow> Inl (UnknownAxisError yid) | Some ya' \<Rightarrow>
               Inr (makeCalcdata env xa' tr ''x'' (msUTC tr),
                    makeCalcdata env ya' tr ''y'' (msUTC tr))))
         else
           (case ya of None \<Rightarrow> Inl (UnknownAxisError yid) | Some ya' \<Rightarrow>
            (case xa of None \<Rightarrow> Inl (UnknownAxisError xid) | Some xa' \<Rightarrow>
               Inr (makeCalcdata env ya' tr ''y'' (msUTC tr),
                    makeCalcdata env xa' tr ''x'' (msUTC tr)))))"

text \<open>
  The body of the \<^verbatim>\<open>for\<close> loop at index \<open>i\<close>: \<^verbatim>\<open>cd[i] = { p: pos[i], s: size[i] }\<close>, and the
  id when \<^verbatim>\<open>trace.ids\<close> is truthy. The loop runs \<open>i\<close> from 0 below
  \<^verbatim>\<open>serieslen = Math.min(pos.length, size.length)\<close>, so both reads are in range.
\<close>

definition calc_point ::
  "('gd, 'ax) collaborators \<Rightarrow> trace \<Rightarrow> jsval list \<Rightarrow> jsval list \<Rightarrow> nat \<Rightarrow> calcdatum" where
  "calc_point env tr pos sz i =
     \<lparr>p = pos ! i, s = sz ! i,
      id_field = (if truthy (ids tr)
                  then Some (String_js (numberToString env) (js_index (ids tr) i))
                  else None),
      extra = []\<rparr>"

definition calc_loop ::
  "('gd, 'ax) collaborators \<Rightarrow> trace \<Rightarrow> jsval list \<Rightarrow> jsval list \<Rightarrow> calcdatum list" where
  "calc_loop env tr pos sz =
     (let serieslen = min (length pos) (length sz)
      in map (calc_point env tr pos sz) [0..<serieslen])"

text \<open>The two colorscale steps, threading the plot and the trace they mutate.\<close>

definition calc_colorscale ::
  "('gd, 'ax) collaborators \<Rightarrow> 'gd \<times> trace \<Rightarrow> 'gd \<times> trace" where
  "calc_colorscale env st =
     (let st1 = (if hasColorscale env (snd st) ''marker''
                 then colorscaleCalc env (fst st) (snd st) (marker_color (snd st)) ''marker'' ''c''
                 else st)
      in if hasColorscale env (snd st1) ''marker.line''
         then colorscaleCalc env (fst st1) (snd st1) (marker_line_color (snd st1))
                ''marker.line'' ''c''
         else st1)"

text \<open>
  Modelled from the spec: \<^verbatim>\<open>arrays_to_calcdata.js\<close> and \<^verbatim>\<open>scatter/calc_selection.js\<close> are
  missing from the sources. The spec (4.4) has these steps "accept the records sequence and
  the trace and enrich in place", adding custom data, text and selection state: a step
  adds its fields to every record and leaves \<open>p\<close>, \<open>s\<close> and the id as they are.
\<close>

definition enrich ::
  "(calcdatum list \<Rightarrow> trace \<Rightarrow> nat \<Rightarrow> (string \<times> jsval) list) \<Rightarrow> calcdatum list \<Rightarrow> trace
     \<Rightarrow> calcdatum list" where
  "enrich f cd tr = map (\<lambda>i. (cd ! i)\<lparr>extra := extra (cd ! i) @ f cd tr i\<rparr>) [0..<length cd]"

text \<open>
  \<^verbatim>\<open>module.exports = function calc(gd, trace)\<close>: the calculated data it returns, with the
  plot and the trace as the colorscale steps left them.
\<close>

definition calc ::
  "('gd, 'ax) collaborators \<Rightarrow> 'gd \<Rightarrow> trace
     \<Rightarrow> calc_error + (calcdatum list \<times> 'gd \<times> trace)" where
  "calc env gd tr =
     (case size_pos env gd tr of
        Inl e \<Rightarrow> Inl e
      | Inr (sz, pos) \<Rightarrow>
          (let cd = calc_loop env tr pos sz;
               st = calc_colorscale env (gd, tr);
               cd1 = enrich (arraysToCalcdata env) cd (snd st);
               cd2 = enrich (calcSelection env) cd1 (snd st)
           in Inr (cd2, st)))"

text \<open>
  A plain environment for the end-to-end scenario: every axis id is known, the axis is
  linear and the data numeric, so that \<^verbatim>\<open>makeCalcdata\<close> returns the array of the attribute
  unchanged; no colorscale, no enrichment.
\<close>

definition plain_env :: "(unit, jsval) collaborators" where
  "plain_env =
     \<lparr>getFromId = (\<lambda>gd i. Some i),
      makeCalcdata = (\<lambda>ax tr letter ms. case attrs tr letter of JArr vs \<Rightarrow> vs | _ \<Rightarrow> []),
      numberToString = (\<lambda>r. ''?''),
      hasColorscale = (\<lambda>tr c. False),
      colorscaleCalc = (\<lambda>gd tr vals c l. (gd, tr)),
      arraysToCalcdata = (\<lambda>cd tr i. []),
      calcSelection = (\<lambda>cd tr i. [])\<rparr>"

text \<open>
  The trace \<^verbatim>\<open>{x: [1,2,3], y: [10,20], orientation: ori, ids: idsv}\<close>; the scenario of the
  spec has \<^verbatim>\<open>orientation: 'v'\<close> and no ids.
\<close>

definition scenario_trace :: "string \<Rightarrow> jsval \<Rightarrow> trace" where
  "scenario_trace ori idsv =
     \<lparr>xaxis = JUndefined, yaxis = JUndefined, base = JUndefined, orientation = JStr ori,
      ids = idsv, marker_color = JUndefined, marker_line_color = JUndefined,
      attrs = (\<lambda>k. if k = ''x'' then JArr [JNum 1, JNum 2, JNum 3]
                    else if k = ''y'' then JArr [JNum 10, JNum 20]
                    else JUndefined)\<rparr>"

section \<open>Axis-referenced objects: shapes, annotations and images\<close>

text \<open>
  \<^verbatim>\<open>test/jasmine/assets/domain_ref/components.js\<close> predicts where an axis-referenced
  object lands in pixels. Its numbers are JavaScript numbers: a finite value, idealised as
  a real (no rounding, no overflow), or \<open>NaN\<close>, which here also stands for undefined and
  the infinities: under \<^verbatim>\<open>+\<close>, \<^verbatim>\<open>-\<close> and \<^verbatim>\<open>*\<close>, the only operators the file applies, an
  operand that is not finite never gives a finite result.
\<close>

datatype jsnum = Fin real | NaN

fun js_add :: "jsnum \<Rightarrow> jsnum \<Rightarrow> jsnum" where
  "js_add (Fin a) (Fin b) = Fin (a + b)"
| "js_add u v = NaN"

fun js_sub :: "jsnum \<Rightarrow> jsnum \<Rightarrow> jsnum" where
  "js_sub (Fin a) (Fin b) = Fin (a - b)"
| "js_sub u v = NaN"

fun js_mul :: "jsnum \<Rightarrow> jsnum \<Rightarrow> jsnum" where
  "js_mul (Fin a) (Fin b) = Fin (a * b)"
| "js_mul u v = NaN"

fun js_neg :: "jsnum \<Rightarrow> jsnum" where
  "js_neg (Fin a) = Fin (- a)"
| "js_neg NaN = NaN"

text \<open>\<^verbatim>\<open>Math.log10\<close>: finite on the positive numbers only.\<close>

fun js_log10 :: "jsnum \<Rightarrow> jsnum" where
  "js_log10 (Fin a) = (if 0 < a then Fin (log 10 a) else NaN)"
| "js_log10 NaN = NaN"

text \<open>
  The objects, with the fields the geometry reads (text, colours, \<^verbatim>\<open>sizing\<close>, \<^verbatim>\<open>source\<close> and
  the shape's \<^verbatim>\<open>type\<close> play no part in it). Fields of the same name in different objects
  are told apart by the record's name: \<open>image.x img\<close> is \<^verbatim>\<open>img.x\<close>.
\<close>

record shape =
  xref :: string
  yref :: string
  x0 :: jsnum
  y0 :: jsnum
  x1 :: jsnum
  y1 :: jsnum

record annotation =
  xref :: string
  yref :: string
  x :: jsnum
  y :: jsnum
  ax :: jsnum
  ay :: jsnum
  axref :: string
  ayref :: string

record image =
  xref :: string
  yref :: string
  x :: jsnum
  y :: jsnum
  sizex :: jsnum
  sizey :: jsnum
  xanchor :: string
  yanchor :: string

record bbox =
  x :: jsnum
  y :: jsnum
  width :: jsnum
  height :: jsnum

text \<open>
  The modules the file requires are not part of the sources at hand; they are the
  parameters of the model: \<^verbatim>\<open>Axes.getRefType\<close> (the kind of a reference, as the string the
  file compares it with), \<^verbatim>\<open>axisIds.id2name\<close>, and the three mappers of
  \<^verbatim>\<open>assets/pixel_calc\<close>. The flag \<open>nolog\<close> reaches \<^verbatim>\<open>mapRangeToPixel\<close> as \<^verbatim>\<open>true\<close> or as
  undefined (\<open>None\<close>).
\<close>

record ('l, 'n) aro_deps =
  getRefType :: "string \<Rightarrow> string"
  id2name :: "string \<Rightarrow> 'n"
  mapRangeToPixel :: "'l \<Rightarrow> 'n \<Rightarrow> jsnum \<Rightarrow> bool option \<Rightarrow> jsnum"
  mapDomainToPixel :: "'l \<Rightarrow> 'n \<Rightarrow> jsnum \<Rightarrow> jsnum"
  mapPaperToPixel :: "'l \<Rightarrow> string \<Rightarrow> jsnum \<Rightarrow> jsnum"


text \<open>
  \<^verbatim>\<open>function mapAROCoordToPixel(layout, axref, aro, c, offset, nolog)\<close>. The two reads of
  the object, \<^verbatim>\<open>aro[axref]\<close> and \<^verbatim>\<open>aro[c]\<close>, are made by the caller and passed as \<open>aro_ref\<close>
  and \<open>aro_c\<close>. An offset left undefined is 0. A reference of none of the three kinds
  leaves \<^verbatim>\<open>ret\<close> undefined.
\<close>

definition mapAROCoordToPixel ::
  "('l, 'n) aro_deps \<Rightarrow> 'l \<Rightarrow> string \<Rightarrow> string \<Rightarrow> jsnum \<Rightarrow> jsnum option \<Rightarrow> bool option
     \<Rightarrow> jsnum" where
  "mapAROCoordToPixel d layout axref_name aro_ref aro_c offset nolog =
     (let reftype = getRefType d aro_ref;
          offset' = (case offset of None \<Rightarrow> Fin 0 | Some v \<Rightarrow> v);
          val = js_add aro_c offset'
      in if reftype = ''range'' then
           mapRangeToPixel d layout (id2name d aro_ref) val nolog
         else if reftype = ''domain'' then
           mapDomainToPixel d layout (id2name d aro_ref) val
         else if reftype = ''paper'' then
           mapPaperToPixel d layout (take 1 axref_name) val
         else NaN)"

text \<open>\<^verbatim>\<open>function shapeToBBox(layout, aro)\<close>\<close>

definition shapeToBBox :: "('l, 'n) aro_deps \<Rightarrow> 'l \<Rightarrow> shape \<Rightarrow> bbox" where
  "shapeToBBox d layout aro =
     (let bbox_x = mapAROCoordToPixel d layout ''xref'' (shape.xref aro) (shape.x0 aro) None None;
          x1' = mapAROCoordToPixel d layout ''xref'' (shape.xref aro) (shape.x1 aro) None None;
          bbox_y = mapAROCoordToPixel d layout ''yref'' (shape.yref aro) (shape.y1 aro) None None;
          y1' = mapAROCoordToPixel d layout ''yref'' (shape.yref aro) (shape.y0 aro) None None
      in \<lparr>bbox.x = bbox_x, bbox.y = bbox_y,
          bbox.width = js_sub x1' bbox_x, bbox.height = js_sub y1' bbox_y\<rparr>)"

text \<open>
  \<^verbatim>\<open>function imageToBBox(layout, img)\<close>, in three parts: the \<^verbatim>\<open>switch (img.xanchor)\<close>, which
  sets \<open>(x0, x1)\<close> or throws; the \<^verbatim>\<open>switch (img.yanchor)\<close>, which sets \<open>(y0, y1)\<close> or
  throws; and the box made of them. \<^verbatim>\<open>-img.sizex * 0.5\<close> is \<^verbatim>\<open>(-img.sizex) * 0.5\<close>.
\<close>

definition image_x_edges ::
  "('l, 'n) aro_deps \<Rightarrow> 'l \<Rightarrow> image \<Rightarrow> string + (jsnum \<times> jsnum)" where
  "image_x_edges d layout img =
     (let m = mapAROCoordToPixel d layout ''xref'' (image.xref img) (image.x img) in
      if image.xanchor img = ''left'' then
        Inr (m None (Some True), m (Some (image.sizex img)) (Some True))
      else if image.xanchor img = ''right'' then
        Inr (m (Some (js_neg (image.sizex img))) (Some True), m None (Some True))
      else if image.xanchor img = ''center'' then
        Inr (m (Some (js_mul (js_neg (image.sizex img)) (Fin 0.5))) (Some True),
             m (Some (js_mul (image.sizex img) (Fin 0.5))) (Some True))
      else Inl (''Bad xanchor: '' @ image.xanchor img))"

definition image_y_edges ::
  "('l, 'n) aro_deps \<Rightarrow> 'l \<Rightarrow> image \<Rightarrow> string + (jsnum \<times> jsnum)" where
  "image_y_edges d layout img =
     (let m = mapAROCoordToPixel d layout ''yref'' (image.yref img) (image.y img) in
      if image.yanchor img = ''bottom'' then
        Inr (m None (Some True), m (Some (image.sizey img)) (Some True))
      else if image.yanchor img = ''top'' then
        Inr (m (Some (js_neg (image.sizey img))) (Some True), m None (Some True))
      else if image.yanchor img = ''middle'' then
        Inr (m (Some (js_mul (js_neg (image.sizey img)) (Fin 0.5))) (Some True),
             m (Some (js_mul (image.sizey img) (Fin 0.5))) (Some True))
      else Inl (''Bad yanchor: '' @ image.yanchor img))"

definition imageToBBox :: "('l, 'n) aro_deps \<Rightarrow> 'l \<Rightarrow> image \<Rightarrow> string + bbox" where
  "imageToBBox d layout img =
     (case image_x_edges d layout img of
        Inl e \<Rightarrow> Inl e
      | Inr (x0', x1') \<Rightarrow>
          (case image_y_edges d layout img of
             Inl e \<Rightarrow> Inl e
           | Inr (y0', y1') \<Rightarrow>
               Inr \<lparr>bbox.x = x0', bbox.y = y1',
                    bbox.width = js_sub x1' x0', bbox.height = js_sub y0' y1'\<rparr>))"

text \<open>\<^verbatim>\<open>function annaxscale(ac, c0, K)\<close>: the scaling factor is the constant 2, \<^verbatim>\<open>K\<close> is unused.\<close>

definition annaxscale :: "jsnum \<Rightarrow> jsnum \<Rightarrow> jsnum \<Rightarrow> jsnum" where
  "annaxscale ac c0 K = js_add c0 (js_mul (Fin 2) (js_sub ac c0))"

text \<open>The \<^verbatim>\<open>opts\<close> object of an annotation, and the \<^verbatim>\<open>'annotation'\<close> case of \<^verbatim>\<open>aroFromParams\<close>.\<close>

record annotation_opts =
  ax :: jsnum
  ay :: jsnum
  axref :: string
  ayref :: string

definition aroFromParams_annotation ::
  "jsnum \<Rightarrow> jsnum \<Rightarrow> string \<Rightarrow> string \<Rightarrow> annotation_opts \<Rightarrow> annotation" where
  "aroFromParams_annotation x0 y0 xref yref opts =
     \<lparr>annotation.xref = xref, annotation.yref = yref,
      annotation.x = x0, annotation.y = y0,
      annotation.ax = annotation_opts.ax opts, annotation.ay = annotation_opts.ay opts,
      annotation.axref = annotation_opts.axref opts,
      annotation.ayref = annotation_opts.ayref opts\<rparr>"
  for x0 y0 xref yref

text \<open>
  \<^verbatim>\<open>function annotationTest(gd, layout, x0, y0, ax, ay, xref, yref, axref, ayref,
  xaxistype, yaxistype, xid, yid)\<close>, as far as it predicts: the two annotations it draws
  and the pixel values it expects, before they are compared with the boxes measured on
  the page. \<open>layout\<close> is \<^verbatim>\<open>gd.layout\<close> as \<^verbatim>\<open>Plotly.relayout\<close> leaves it. \<open>xabspixels\<close> is the
  pixel of the anchor and \<open>xpixels\<close> the length of the arrow along x, so the arrow's
  endpoint is at \<open>xabspixels + xpixels\<close>; likewise for y.
\<close>

record annotation_pixels =
  axpixels :: bool
  aypixels :: bool
  anno0 :: annotation
  anno1 :: annotation
  xabspixels :: jsnum
  yabspixels :: jsnum
  xpixels :: jsnum
  ypixels :: jsnum

definition annotationTest ::
  "('l, 'n) aro_deps \<Rightarrow> 'l \<Rightarrow> jsnum \<Rightarrow> jsnum \<Rightarrow> jsnum \<Rightarrow> jsnum
     \<Rightarrow> string \<Rightarrow> string \<Rightarrow> string \<Rightarrow> string \<Rightarrow> string \<Rightarrow> string \<Rightarrow> annotation_pixels" where
  "annotationTest d layout x0 y0 ax ay xref yref axref ayref xaxistype yaxistype =
     (let xreftype = getRefType d xref;
          yreftype = getRefType d yref;
          axreftype = getRefType d axref;
          ayreftype = getRefType d ayref;
          x0 = (if xreftype = ''range'' \<and> xaxistype = ''log'' then js_log10 x0 else x0);
          ax = (if axreftype = ''range'' \<and> xaxistype = ''log'' then js_log10 ax else ax);
          y0 = (if yreftype = ''range'' \<and> yaxistype = ''log'' then js_log10 y0 else y0);
          ay = (if ayreftype = ''range'' \<and> yaxistype = ''log'' then js_log10 ay else ay);
          axpixels = (axreftype = ''pixel'' \<or> axreftype \<noteq> xreftype);
          aypixels = (ayreftype = ''pixel'' \<or> ayreftype \<noteq> yreftype);
          opts0 = \<lparr>annotation_opts.ax = ax, annotation_opts.ay = ay,
                   annotation_opts.axref = axref, annotation_opts.ayref = ayref\<rparr>;
          opts1 = \<lparr>annotation_opts.ax =
                     (if axpixels then js_mul (Fin 2) ax else annaxscale ax x0 (Fin 2)),
                   annotation_opts.ay =
                     (if aypixels then js_mul (Fin 2) ay else annaxscale ay y0 (Fin 2)),
                   annotation_opts.axref = axref, annotation_opts.ayref = ayref\<rparr>;
          anno0 = aroFromParams_annotation x0 y0 xref yref opts0;
          anno1 = aroFromParams_annotation x0 y0 xref yref opts1;
          xabspixels = mapAROCoordToPixel d layout ''xref'' (annotation.xref anno1)
                         (annotation.x anno1) (Some (Fin 0)) (Some True);
          yabspixels = mapAROCoordToPixel d layout ''yref'' (annotation.yref anno1)
                         (annotation.y anno1) (Some (Fin 0)) (Some True);
          xpixels = (if axpixels then ax
                     else js_sub (mapAROCoordToPixel d layout ''xref'' (annotation.xref anno0)
                                    (annotation.ax anno0) (Some (Fin 0)) (Some True))
                                 xabspixels);
          ypixels = (if aypixels then ay
                     else js_sub (mapAROCoordToPixel d layout ''yref'' (annotation.yref anno0)
                                    (annotation.ay anno0) (Some (Fin 0)) (Some True))
                                 yabspixels)
      in \<lparr>axpixels = axpixels, aypixels = aypixels, anno0 = anno0, anno1 = anno1,
          xabspixels = xabspixels, yabspixels = yabspixels,
          xpixels = xpixels, ypixels = ypixels\<rparr>)"
  for x0 y0 ax ay xref yref axref ayref

section \<open>The reference resolver\<close>

text \<open>
  Modelled from the spec: the function that classifies a reference string
  (\<^verbatim>\<open>Axes.getRefType\<close> in \<^verbatim>\<open>src/plots/cartesian/axes\<close>) is missing from the sources. The spec
  (4.2) gives the contract \<^verbatim>\<open>classify(referenceString) -> {kind, axisId?}\<close>: the literal
  \<^verbatim>\<open>paper\<close> is of kind paper; else a string ending in \<^verbatim>\<open>" domain"\<close> is of kind domain, its
  axis id the string without the suffix; else the kind is range and the axis id the
  string itself; it fails with InvalidReferenceError on empty input.
\<close>

datatype ref_kind = RangeKind | DomainKind | PaperKind

datatype ref_error = InvalidReferenceError

definition classify :: "string \<Rightarrow> ref_error + (ref_kind \<times> string option)" where
  "classify r =
     (if r = [] then Inl InvalidReferenceError
      else if r = ''paper'' then Inr (PaperKind, None)
      else if suffix '' domain'' r then
        Inr (DomainKind, Some (take (length r - length '' domain'') r))
      else Inr (RangeKind, Some r))"

text \<open>
  Modelled from the spec: the kind of a reference as the string \<^verbatim>\<open>annotationTest\<close> compares
  it with. Sections 2 and 3 of the spec have a fourth kind, pixel, for the literal token
  \<^verbatim>\<open>pixel\<close> of an arrow reference; every other string has the kind \<open>classify\<close> gives it.
  It serves in the sample environment below.
\<close>

definition getRefType_spec :: "string \<Rightarrow> string" where
  "getRefType_spec ar =
     (if ar = ''pixel'' then ''pixel''
      else case classify ar of
             Inl e \<Rightarrow> []
           | Inr (RangeKind, i) \<Rightarrow> ''range''
           | Inr (DomainKind, i) \<Rightarrow> ''domain''
           | Inr (PaperKind, i) \<Rightarrow> ''paper'')"

text \<open>
  Modelled from the spec: \<^verbatim>\<open>pixelCalc.mapRangeToPixel\<close> is missing from the sources. The
  spec (4.3, step 2) applies the log10 transform to the value only when the mapping is
  log-aware and the axis is of type log, and then scales; the comment on \<^verbatim>\<open>nolog\<close> in
  \<^verbatim>\<open>mapAROCoordToPixel\<close> says the same of the flag. \<open>islog\<close> tells whether an axis of the
  layout is of type log, \<open>scale\<close> is the scaling to pixels.
\<close>

definition logAwareRange ::
  "('l \<Rightarrow> 'n \<Rightarrow> bool) \<Rightarrow> ('l \<Rightarrow> 'n \<Rightarrow> jsnum \<Rightarrow> jsnum) \<Rightarrow> 'l \<Rightarrow> 'n \<Rightarrow> jsnum \<Rightarrow> bool option \<Rightarrow> jsnum" where
  "logAwareRange islog scale layout axis r nolog =
     scale layout axis (if nolog \<noteq> Some True \<and> islog layout axis then js_log10 r else r)"

text \<open>
  A sample environment, to evaluate the definitions at concrete inputs: axes named by
  their ids, a range mapper of slope 50 from pixel 100 that takes the logarithm on the
  axis \<^verbatim>\<open>x3\<close> (a log axis), the domain mapper of the spec's scenario 2 (an axis whose pixel
  domain spans \<open>[100, 400]\<close>), and a paper of 500 pixels.
\<close>

definition sample_deps :: "(unit, string) aro_deps" where
  "sample_deps =
     \<lparr>getRefType = getRefType_spec,
      id2name = (\<lambda>i. i),
      mapRangeToPixel =
        logAwareRange (\<lambda>l n. n = ''x3'') (\<lambda>l n r. js_add (Fin 100) (js_mul (Fin 50) r)),
      mapDomainToPixel = (\<lambda>l n r. js_add (Fin 100) (js_mul (js_sub (Fin 400) (Fin 100)) r)),
      mapPaperToPixel = (\<lambda>l a r. js_mul (Fin 500) r)\<rparr>"


text \<open>
  A sample image: \<open>x = 0.5\<close>, \<open>y = 1\<close>, \<open>sizex = 0.2\<close>, \<open>sizey = 2\<close>, with the references and
  anchors given.
\<close>

definition sample_image :: "string \<Rightarrow> string \<Rightarrow> string \<Rightarrow> string \<Rightarrow> image" where
  "sample_image xr yr xa ya =
     \<lparr>image.xref = xr, image.yref = yr, image.x = Fin 0.5, image.y = Fin 1,
      image.sizex = Fin 0.2, image.sizey = Fin 2, image.xanchor = xa, image.yanchor = ya\<rparr>"

section \<open>Properties of the bar trace calculation\<close>

lemma length_enrich: "length (enrich f cd tr) = length cd"
  by (simp add: enrich_def)

lemma nth_enrich:
  "i < length cd \<Longrightarrow> enrich f cd tr ! i = (cd ! i)\<lparr>extra := extra (cd ! i) @ f cd tr i\<rparr>"
  by (simp add: enrich_def)

lemma length_calc_loop: "length (calc_loop env tr pos sz) = min (length pos) (length sz)"
  by (simp add: calc_loop_def)

lemma nth_calc_loop:
  "i < min (length pos) (length sz) \<Longrightarrow> calc_loop env tr pos sz ! i = calc_point env tr pos sz i"
  by (simp add: calc_loop_def)

lemma calc_Inr:
  assumes "size_pos env gd tr = Inr (sz, pos)"
  shows "\<exists>cd st. calc env gd tr = Inr (cd, st) \<and>
           length cd = min (length pos) (length sz) \<and>
           (\<forall>i<length cd. cd ! i = (calc_point env tr pos sz i)\<lparr>extra := extra (cd ! i)\<rparr>)"
  using assms
  by (simp add: calc_def Let_def length_enrich nth_enrich length_calc_loop nth_calc_loop)

lemma calc_Inr_unique:
  assumes "calc env gd tr = Inr (cd, st)"
  shows "\<exists>sz pos. size_pos env gd tr = Inr (sz, pos)"
  using assms by (cases "size_pos env gd tr") (auto simp: calc_def)

lemma calc_point_fields:
  assumes "d = (calc_point env tr pos sz i)\<lparr>extra := e\<rparr>"
  shows "p d = pos ! i" and "s d = sz ! i"
    and "id_field d = (if truthy (ids tr)
                       then Some (String_js (numberToString env) (js_index (ids tr) i))
                       else None)"
  using assms by (simp_all add: calc_point_def)


lemma size_pos_resolved:
  assumes "getFromId env gd (js_or (xaxis tr) (JStr ''x'')) = Some xa"
    and "getFromId env gd (js_or (yaxis tr) (JStr ''y'')) = Some ya"
  shows "size_pos env gd tr =
     Inr (if orientation tr = JStr ''h''
          then (makeCalcdata env xa tr ''x'' (msUTC tr), makeCalcdata env ya tr ''y'' (msUTC tr))
          else (makeCalcdata env ya tr ''y'' (msUTC tr), makeCalcdata env xa tr ''x'' (msUTC tr)))"
  using assms by (simp add: size_pos_def Let_def)

lemma scenario_size_pos:
  "size_pos plain_env () (scenario_trace ''v'' idsv) =
     Inr ([JNum 10, JNum 20], [JNum 1, JNum 2, JNum 3])"
  by (simp add: size_pos_def plain_env_def scenario_trace_def js_or_def)

lemma scenario_size_pos_h:
  "size_pos plain_env () (scenario_trace ''h'' idsv) =
     Inr ([JNum 1, JNum 2, JNum 3], [JNum 10, JNum 20])"
  by (simp add: size_pos_def plain_env_def scenario_trace_def js_or_def)

lemma plain_env_calcdata:
  "makeCalcdata plain_env axis (scenario_trace ori idsv) ''x'' b = [JNum 1, JNum 2, JNum 3]"
  "makeCalcdata plain_env axis (scenario_trace ori idsv) ''y'' b = [JNum 10, JNum 20]"
  by (simp_all add: plain_env_def scenario_trace_def)

lemma plain_env_axes:
  "getFromId plain_env () (js_or (xaxis (scenario_trace ori idsv)) (JStr ''x'')) = Some (JStr ''x'')"
  "getFromId plain_env () (js_or (yaxis (scenario_trace ori idsv)) (JStr ''y'')) = Some (JStr ''y'')"
  by (simp_all add: plain_env_def scenario_trace_def js_or_def)

lemma scenario_orientation: "orientation (scenario_trace ori idsv) = JStr ori"
  by (simp add: scenario_trace_def)

lemma scenario_calc_plain:
  "calc plain_env () (scenario_trace ''v'' JUndefined) =
     Inr ([\<lparr>p = JNum 1, s = JNum 10, id_field = None, extra = []\<rparr>,
           \<lparr>p = JNum 2, s = JNum 20, id_field = None, extra = []\<rparr>],
          (), scenario_trace ''v'' JUndefined)"
  by (simp add: calc_def size_pos_def plain_env_def scenario_trace_def calc_loop_def
      calc_point_def calc_colorscale_def enrich_def js_or_def msUTC_def Let_def upt_rec)

lemma scenario_calc_ids:
  "calc plain_env () (scenario_trace ''v'' (JArr [JStr ''a''])) =
     Inr ([\<lparr>p = JNum 1, s = JNum 10, id_field = Some ''a'', extra = []\<rparr>,
           \<lparr>p = JNum 2, s = JNum 20, id_field = Some ''undefined'', extra = []\<rparr>],
          (), scenario_trace ''v'' (JArr [JStr ''a'']))"
  by (simp add: calc_def size_pos_def plain_env_def scenario_trace_def calc_loop_def
      calc_point_def calc_colorscale_def enrich_def js_or_def msUTC_def Let_def upt_rec)

text \<open>
  Claim C1. Whenever the two axes resolve, so that the size and position arrays \<open>sz\<close> and
  \<open>pos\<close> exist, \<^verbatim>\<open>calc\<close> returns a sequence whose length is the minimum of the lengths of
  \<open>pos\<close> and \<open>sz\<close>, and its \<open>i\<close>-th record has \<open>p = pos[i]\<close> and \<open>s = sz[i]\<close>: what lies
  beyond the shorter array is dropped, nothing is padded. (When an axis does not resolve,
  \<^verbatim>\<open>calc\<close> throws and returns nothing.) The trace
  \<^verbatim>\<open>{x: [1,2,3], y: [10,20], orientation: 'v'}\<close> on linear axes yields exactly the two records
  \<^verbatim>\<open>[{p: 1, s: 10}, {p: 2, s: 20}]\<close>.
\<close>

theorem calc_truncates_and_zips:
  "(\<forall>sz pos. size_pos env gd tr = Inr (sz, pos) \<longrightarrow>
      (\<exists>cd st. calc env gd tr = Inr (cd, st) \<and>
         length cd = min (length pos) (length sz) \<and>
         (\<forall>i<length cd. p (cd ! i) = pos ! i \<and> s (cd ! i) = sz ! i)))
   \<and> (\<forall>e. size_pos env gd tr = Inl e \<longrightarrow> calc env gd tr = Inl e)
   \<and> calc plain_env () (scenario_trace ''v'' JUndefined) =
       Inr ([\<lparr>p = JNum 1, s = JNum 10, id_field = None, extra = []\<rparr>,
             \<lparr>p = JNum 2, s = JNum 20, id_field = None, extra = []\<rparr>],
            (), scenario_trace ''v'' JUndefined)"
proof (intro conjI allI impI)
  fix sz pos
  assume "size_pos env gd tr = Inr (sz, pos)"
  from calc_Inr [OF this] obtain cd st where
    c: "calc env gd tr = Inr (cd, st)" and
    l: "length cd = min (length pos) (length sz)" and
    n: "\<forall>i<length cd. cd ! i = (calc_point env tr pos sz i)\<lparr>extra := extra (cd ! i)\<rparr>"
    by blast
  have "\<forall>i<length cd. p (cd ! i) = pos ! i \<and> s (cd ! i) = sz ! i"
  proof (intro allI impI)
    fix i assume "i < length cd"
    with n have e: "cd ! i = (calc_point env tr pos sz i)\<lparr>extra := extra (cd ! i)\<rparr>"
      by simp
    show "p (cd ! i) = pos ! i \<and> s (cd ! i) = sz ! i"
      using calc_point_fields(1) [OF e] calc_point_fields(2) [OF e] by simp
  qed
  with c l show "\<exists>cd st. calc env gd tr = Inr (cd, st) \<and>
         length cd = min (length pos) (length sz) \<and>
         (\<forall>i<length cd. p (cd ! i) = pos ! i \<and> s (cd ! i) = sz ! i)"
    by blast
next
  fix e
  assume "size_pos env gd tr = Inl e"
  then show "calc env gd tr = Inl e" by (simp add: calc_def)
next
  show "calc plain_env () (scenario_trace ''v'' JUndefined) =
       Inr ([\<lparr>p = JNum 1, s = JNum 10, id_field = None, extra = []\<rparr>,
             \<lparr>p = JNum 2, s = JNum 20, id_field = None, extra = []\<rparr>],
            (), scenario_trace ''v'' JUndefined)"
    by (rule scenario_calc_plain)
qed

text \<open>The theorem at the scenario trace, here with an ids array of one element.\<close>

theorem calc_truncates_and_zips_witness:
  "size_pos plain_env () (scenario_trace ''v'' (JArr [JStr ''a''])) =
     Inr ([JNum 10, JNum 20], [JNum 1, JNum 2, JNum 3])
   \<and> (\<exists>cd st. calc plain_env () (scenario_trace ''v'' (JArr [JStr ''a''])) = Inr (cd, st)
         \<and> length cd = 2 \<and> p (cd ! 1) = JNum 2 \<and> s (cd ! 1) = JNum 20)"
proof -
  have h: "size_pos plain_env () (scenario_trace ''v'' (JArr [JStr ''a''])) =
     Inr ([JNum 10, JNum 20], [JNum 1, JNum 2, JNum 3])"
    by (rule scenario_size_pos)
  from calc_truncates_and_zips [of plain_env "()" "scenario_trace ''v'' (JArr [JStr ''a''])"] h
  obtain cd st where
    "calc plain_env () (scenario_trace ''v'' (JArr [JStr ''a''])) = Inr (cd, st)"
    "length cd = min (length [JNum 1, JNum 2, JNum 3]) (length [JNum 10, JNum 20])"
    "\<forall>i<length cd. p (cd ! i) = [JNum 1, JNum 2, JNum 3] ! i \<and> s (cd ! i) = [JNum 10, JNum 20] ! i"
    by blast
  then have "calc plain_env () (scenario_trace ''v'' (JArr [JStr ''a''])) = Inr (cd, st)
         \<and> length cd = 2 \<and> p (cd ! 1) = JNum 2 \<and> s (cd ! 1) = JNum 20"
    by simp
  with h show ?thesis by blast
qed

text \<open>
  Claim C7. The orientation is read once for the trace. When \<^verbatim>\<open>trace.orientation\<close> is \<^verbatim>\<open>'h'\<close>
  the size array is the x axis's \<^verbatim>\<open>makeCalcdata(trace, 'x', msUTC)\<close> and the position array
  the y axis's \<^verbatim>\<open>makeCalcdata(trace, 'y', msUTC)\<close>, and every record takes its \<open>s\<close> from the
  former and its \<open>p\<close> from the latter; for any other orientation the roles are reversed.
\<close>

theorem calc_orientation_roles:
  assumes "getFromId env gd (js_or (xaxis tr) (JStr ''x'')) = Some xa"
    and "getFromId env gd (js_or (yaxis tr) (JStr ''y'')) = Some ya"
  shows "\<exists>cd st. calc env gd tr = Inr (cd, st) \<and>
     (orientation tr = JStr ''h'' \<longrightarrow>
        size_pos env gd tr = Inr (makeCalcdata env xa tr ''x'' (msUTC tr),
                                  makeCalcdata env ya tr ''y'' (msUTC tr)) \<and>
        (\<forall>i<length cd. s (cd ! i) = makeCalcdata env xa tr ''x'' (msUTC tr) ! i \<and>
                         p (cd ! i) = makeCalcdata env ya tr ''y'' (msUTC tr) ! i)) \<and>
     (orientation tr \<noteq> JStr ''h'' \<longrightarrow>
        size_pos env gd tr = Inr (makeCalcdata env ya tr ''y'' (msUTC tr),
                                  makeCalcdata env xa tr ''x'' (msUTC tr)) \<and>
        (\<forall>i<length cd. s (cd ! i) = makeCalcdata env ya tr ''y'' (msUTC tr) ! i \<and>
                         p (cd ! i) = makeCalcdata env xa tr ''x'' (msUTC tr) ! i))"
proof -
  let ?X = "makeCalcdata env xa tr ''x'' (msUTC tr)"
  let ?Y = "makeCalcdata env ya tr ''y'' (msUTC tr)"
  let ?sz = "if orientation tr = JStr ''h'' then ?X else ?Y"
  let ?pos = "if orientation tr = JStr ''h'' then ?Y else ?X"
  have sp: "size_pos env gd tr = Inr (?sz, ?pos)"
    using size_pos_resolved [OF assms] by simp
  from calc_Inr [OF sp] obtain cd st where
    c: "calc env gd tr = Inr (cd, st)" and
    n: "\<forall>i<length cd. cd ! i = (calc_point env tr ?pos ?sz i)\<lparr>extra := extra (cd ! i)\<rparr>"
    by blast
  have f: "\<forall>i<length cd. s (cd ! i) = ?sz ! i \<and> p (cd ! i) = ?pos ! i"
  proof (intro allI impI)
    fix i assume "i < length cd"
    with n have e: "cd ! i = (calc_point env tr ?pos ?sz i)\<lparr>extra := extra (cd ! i)\<rparr>"
      by simp
    show "s (cd ! i) = ?sz ! i \<and> p (cd ! i) = ?pos ! i"
      using calc_point_fields(1) [OF e] calc_point_fields(2) [OF e] by simp
  qed
  show ?thesis
  proof (intro exI conjI impI)
    show "calc env gd tr = Inr (cd, st)" by (rule c)
  next
    assume "orientation tr = JStr ''h''"
    then show "size_pos env gd tr = Inr (?X, ?Y)" using sp by simp
  next
    assume "orientation tr = JStr ''h''"
    then show "\<forall>i<length cd. s (cd ! i) = ?X ! i \<and> p (cd ! i) = ?Y ! i" using f by simp
  next
    assume "orientation tr \<noteq> JStr ''h''"
    then show "size_pos env gd tr = Inr (?Y, ?X)" using sp by simp
  next
    assume "orientation tr \<noteq> JStr ''h''"
    then show "\<forall>i<length cd. s (cd ! i) = ?Y ! i \<and> p (cd ! i) = ?X ! i" using f by simp
  qed
qed

text \<open>The theorem at the scenario trace laid out horizontally.\<close>

theorem calc_orientation_roles_witness:
  "getFromId plain_env () (js_or (xaxis (scenario_trace ''h'' JUndefined)) (JStr ''x''))
     = Some (JStr ''x'')
   \<and> getFromId plain_env () (js_or (yaxis (scenario_trace ''h'' JUndefined)) (JStr ''y''))
     = Some (JStr ''y'')
   \<and> orientation (scenario_trace ''h'' JUndefined) = JStr ''h''
   \<and> (\<exists>cd st. calc plain_env () (scenario_trace ''h'' JUndefined) = Inr (cd, st)
         \<and> size_pos plain_env () (scenario_trace ''h'' JUndefined)
             = Inr ([JNum 1, JNum 2, JNum 3], [JNum 10, JNum 20])
         \<and> (0 < length cd \<and> s (cd ! 0) = JNum 1 \<and> p (cd ! 0) = JNum 10))"
proof -
  let ?t = "scenario_trace ''h'' JUndefined"
  from calc_orientation_roles [OF plain_env_axes(1) plain_env_axes(2), of "''h''" JUndefined]
  obtain cd st where c: "calc plain_env () ?t = Inr (cd, st)"
    and sp: "size_pos plain_env () ?t = Inr ([JNum 1, JNum 2, JNum 3], [JNum 10, JNum 20])"
    and f: "\<forall>i<length cd. s (cd ! i) = [JNum 1, JNum 2, JNum 3] ! i \<and>
                            p (cd ! i) = [JNum 10, JNum 20] ! i"
    by (simp add: scenario_orientation plain_env_calcdata) blast
  from calc_Inr [OF sp] c have "length cd = 2" by auto
  with f have "0 < length cd \<and> s (cd ! 0) = JNum 1 \<and> p (cd ! 0) = JNum 10" by simp
  with c sp show ?thesis
    using plain_env_axes scenario_orientation by blast
qed


text \<open>
  Claim C9. When \<^verbatim>\<open>trace.ids\<close> is an array, the \<open>i\<close>-th record's id is
  \<^verbatim>\<open>String(trace.ids[i])\<close> for every index below the length of the calculated data (an
  index past the end of the ids reads undefined); more generally this holds for every
  truthy \<^verbatim>\<open>trace.ids\<close>. When \<^verbatim>\<open>trace.ids\<close> is absent (falsy), no record has an id.
\<close>

theorem calc_ids:
  assumes "calc env gd tr = Inr (cd, st)"
  shows "(\<forall>vs. ids tr = JArr vs \<longrightarrow>
            (\<forall>i<length cd. id_field (cd ! i) =
               Some (String_js (numberToString env) (if i < length vs then vs ! i else JUndefined))))
       \<and> (truthy (ids tr) \<longrightarrow>
            (\<forall>i<length cd. id_field (cd ! i) =
               Some (String_js (numberToString env) (js_index (ids tr) i))))
       \<and> (\<not> truthy (ids tr) \<longrightarrow> (\<forall>i<length cd. id_field (cd ! i) = None))"
proof -
  from calc_Inr_unique [OF assms] obtain sz pos where sp: "size_pos env gd tr = Inr (sz, pos)"
    by blast
  from calc_Inr [OF sp] assms have
    n: "\<forall>i<length cd. cd ! i = (calc_point env tr pos sz i)\<lparr>extra := extra (cd ! i)\<rparr>"
    by auto
  have f: "\<forall>i<length cd. id_field (cd ! i) =
      (if truthy (ids tr) then Some (String_js (numberToString env) (js_index (ids tr) i))
       else None)"
  proof (intro allI impI)
    fix i assume "i < length cd"
    with n have e: "cd ! i = (calc_point env tr pos sz i)\<lparr>extra := extra (cd ! i)\<rparr>"
      by simp
    show "id_field (cd ! i) =
      (if truthy (ids tr) then Some (String_js (numberToString env) (js_index (ids tr) i))
       else None)"
      by (rule calc_point_fields(3) [OF e])
  qed
  show ?thesis
  proof (intro conjI allI impI)
    fix vs i assume "ids tr = JArr vs" "i < length cd"
    with f show "id_field (cd ! i) =
       Some (String_js (numberToString env) (if i < length vs then vs ! i else JUndefined))"
      by simp
  next
    fix i assume "truthy (ids tr)" "i < length cd"
    with f show "id_field (cd ! i) = Some (String_js (numberToString env) (js_index (ids tr) i))"
      by simp
  next
    fix i assume "\<not> truthy (ids tr)" "i < length cd"
    with f show "id_field (cd ! i) = None" by simp
  qed
qed

text \<open>
  The theorem at the scenario trace with ids \<^verbatim>\<open>['a']\<close>, where the second id reads past the
  end, and at the scenario trace without ids.
\<close>

theorem calc_ids_witness:
  "calc plain_env () (scenario_trace ''v'' (JArr [JStr ''a''])) =
     Inr ([\<lparr>p = JNum 1, s = JNum 10, id_field = Some ''a'', extra = []\<rparr>,
           \<lparr>p = JNum 2, s = JNum 20, id_field = Some ''undefined'', extra = []\<rparr>],
          (), scenario_trace ''v'' (JArr [JStr ''a'']))
   \<and> ids (scenario_trace ''v'' (JArr [JStr ''a''])) = JArr [JStr ''a'']
   \<and> id_field ([\<lparr>p = JNum 1, s = JNum 10, id_field = Some ''a'', extra = []\<rparr>,
                 \<lparr>p = JNum 2, s = JNum 20, id_field = Some ''undefined'', extra = []\<rparr>] ! 0)
       = Some (String_js (numberToString plain_env) (JStr ''a''))
   \<and> id_field ([\<lparr>p = JNum 1, s = JNum 10, id_field = Some ''a'', extra = []\<rparr>,
                 \<lparr>p = JNum 2, s = JNum 20, id_field = Some ''undefined'', extra = []\<rparr>] ! 1)
       = Some (String_js (numberToString plain_env) JUndefined)
   \<and> calc plain_env () (scenario_trace ''v'' JUndefined) =
     Inr ([\<lparr>p = JNum 1, s = JNum 10, id_field = None, extra = []\<rparr>,
           \<lparr>p = JNum 2, s = JNum 20, id_field = None, extra = []\<rparr>],
          (), scenario_trace ''v'' JUndefined)
   \<and> \<not> truthy (ids (scenario_trace ''v'' JUndefined))
   \<and> id_field ([\<lparr>p = JNum 1, s = JNum 10, id_field = None, extra = []\<rparr>,
                 \<lparr>p = JNum 2, s = JNum 20, id_field = None, extra = []\<rparr>] ! 1) = None"
  using calc_ids [OF scenario_calc_ids] calc_ids [OF scenario_calc_plain]
    scenario_calc_ids scenario_calc_plain
  by (simp add: scenario_trace_def)

section \<open>Properties of the reference resolver and of the geometry of the objects\<close>




lemma map_offset_default:
  "mapAROCoordToPixel d layout an r c None nolog
     = mapAROCoordToPixel d layout an r c (Some (Fin 0)) nolog"
  by (simp add: mapAROCoordToPixel_def)

lemma map_offset_shift:
  "mapAROCoordToPixel d layout an r (Fin v) (Some (Fin off)) nolog
     = mapAROCoordToPixel d layout an r (Fin (v + off)) None nolog"
  by (simp add: mapAROCoordToPixel_def)

lemma map_forced_nolog:
  "mapAROCoordToPixel
     (d\<lparr>mapRangeToPixel := \<lambda>l n v nolog. mapRangeToPixel d l n v (Some True)\<rparr>)
     layout an r c off (Some True)
   = mapAROCoordToPixel d layout an r c off (Some True)"
  by (simp add: mapAROCoordToPixel_def Let_def)

lemma map_logAware_nolog:
  "mapAROCoordToPixel (d\<lparr>mapRangeToPixel := logAwareRange islog scale\<rparr>)
     layout an r c off (Some True)
   = mapAROCoordToPixel (d\<lparr>mapRangeToPixel := \<lambda>l n v nolog. scale l n v\<rparr>)
     layout an r c off (Some True)"
  by (simp add: mapAROCoordToPixel_def Let_def logAwareRange_def)

lemma image_y_edges_xanchor:
  "image_y_edges d layout (img\<lparr>image.xanchor := a\<rparr>) = image_y_edges d layout img"
  by (simp add: image_y_edges_def Let_def cong: if_cong)

lemma image_y_edges_defined:
  assumes "image.yanchor img \<in> {''top'', ''middle'', ''bottom''}"
  shows "\<exists>ye0 ye1. image_y_edges d layout img = Inr (ye0, ye1)"
  using assms by (auto simp add: image_y_edges_def Let_def)

lemma sample_simps:
  "getRefType sample_deps = getRefType_spec"
  "id2name sample_deps i = i"
  "mapRangeToPixel sample_deps l n r nolog =
     logAwareRange (\<lambda>l n. n = ''x3'') (\<lambda>l n r. js_add (Fin 100) (js_mul (Fin 50) r)) l n r nolog"
  "mapDomainToPixel sample_deps l n r = js_add (Fin 100) (js_mul (js_sub (Fin 400) (Fin 100)) r)"
  "mapPaperToPixel sample_deps l a r = js_mul (Fin 500) r"
  by (simp_all add: sample_deps_def)

lemma getRefType_spec_samples:
  "getRefType_spec ''pixel'' = ''pixel''"
  "getRefType_spec ''paper'' = ''paper''"
  "getRefType_spec ''x2 domain'' = ''domain''"
  "getRefType_spec ''x'' = ''range''"
  "getRefType_spec ''y'' = ''range''"
  "getRefType_spec ''x3'' = ''range''"
  by (simp_all add: getRefType_spec_def classify_def suffix_to_prefix)

lemma sample_map_domain:
  "mapAROCoordToPixel sample_deps () an ''x2 domain'' (Fin v) None nolog = Fin (100 + 300 * v)"
  by (simp add: mapAROCoordToPixel_def sample_simps getRefType_spec_samples)

lemma sample_map_range_y:
  "mapAROCoordToPixel sample_deps () an ''y'' (Fin v) None nolog = Fin (100 + 50 * v)"
  by (simp add: mapAROCoordToPixel_def sample_simps getRefType_spec_samples logAwareRange_def)




text \<open>
  Claim C3, as amended. With \<open>map(c, off)\<close> for \<^verbatim>\<open>mapAROCoordToPixel\<close> of the coordinate \<open>c\<close>
  along its reference with offset \<open>off\<close> and \<^verbatim>\<open>nolog = true\<close> (the offset 0 is what a call
  without offset adds, see \<open>map_offset_default\<close>): \<^verbatim>\<open>xanchor\<close> \<^verbatim>\<open>left\<close> gives
  \<open>(x0, x1) = (map(x, 0), map(x, sizex))\<close>, \<^verbatim>\<open>right\<close> gives \<open>(map(x, -sizex), map(x, 0))\<close> and
  \<^verbatim>\<open>center\<close> gives \<open>(map(x, -sizex * 0.5), map(x, sizex * 0.5))\<close>. For \<^verbatim>\<open>yanchor\<close> it is
  \<^verbatim>\<open>bottom\<close> that gives \<open>(y0, y1) = (map(y, 0), map(y, sizey))\<close> and \<^verbatim>\<open>top\<close> that gives
  \<open>(map(y, -sizey), map(y, 0))\<close>; \<^verbatim>\<open>middle\<close> gives \<open>(map(y, -sizey * 0.5), map(y, sizey * 0.5))\<close>.
  The box is \<open>x = x0\<close>, \<open>width = x1 - x0\<close>, \<open>y = y1\<close>, \<open>height = y0 - y1\<close>. An \<^verbatim>\<open>xanchor\<close>
  outside left, center, right throws \<^verbatim>\<open>'Bad xanchor: ...'\<close>; with a good \<^verbatim>\<open>xanchor\<close>, a
  \<^verbatim>\<open>yanchor\<close> outside top, middle, bottom throws \<^verbatim>\<open>'Bad yanchor: ...'\<close>; no box is produced.
\<close>

theorem image_anchor_edges:
  "(image.xanchor img = ''left'' \<longrightarrow> image_x_edges d layout img =
      Inr (mapAROCoordToPixel d layout ''xref'' (image.xref img) (image.x img)
             (Some (Fin 0)) (Some True),
           mapAROCoordToPixel d layout ''xref'' (image.xref img) (image.x img)
             (Some (image.sizex img)) (Some True)))
   \<and> (image.xanchor img = ''right'' \<longrightarrow> image_x_edges d layout img =
      Inr (mapAROCoordToPixel d layout ''xref'' (image.xref img) (image.x img)
             (Some (js_neg (image.sizex img))) (Some True),
           mapAROCoordToPixel d layout ''xref'' (image.xref img) (image.x img)
             (Some (Fin 0)) (Some True)))
   \<and> (image.xanchor img = ''center'' \<longrightarrow> image_x_edges d layout img =
      Inr (mapAROCoordToPixel d layout ''xref'' (image.xref img) (image.x img)
             (Some (js_mul (js_neg (image.sizex img)) (Fin 0.5))) (Some True),
           mapAROCoordToPixel d layout ''xref'' (image.xref img) (image.x img)
             (Some (js_mul (image.sizex img) (Fin 0.5))) (Some True)))
   \<and> (image.yanchor img = ''bottom'' \<longrightarrow> image_y_edges d layout img =
      Inr (mapAROCoordToPixel d layout ''yref'' (image.yref img) (image.y img)
             (Some (Fin 0)) (Some True),
           mapAROCoordToPixel d layout ''yref'' (image.yref img) (image.y img)
             (Some (image.sizey img)) (Some True)))
   \<and> (image.yanchor img = ''top'' \<longrightarrow> image_y_edges d layout img =
      Inr (mapAROCoordToPixel d layout ''yref'' (image.yref img) (image.y img)
             (Some (js_neg (image.sizey img))) (Some True),
           mapAROCoordToPixel d layout ''yref'' (image.yref img) (image.y img)
             (Some (Fin 0)) (Some True)))
   \<and> (image.yanchor img = ''middle'' \<longrightarrow> image_y_edges d layout img =
      Inr (mapAROCoordToPixel d layout ''yref'' (image.yref img) (image.y img)
             (Some (js_mul (js_neg (image.sizey img)) (Fin 0.5))) (Some True),
           mapAROCoordToPixel d layout ''yref'' (image.yref img) (image.y img)
             (Some (js_mul (image.sizey img) (Fin 0.5))) (Some True)))
   \<and> (\<forall>xe0 xe1 ye0 ye1.
        image_x_edges d layout img = Inr (xe0, xe1) \<and> image_y_edges d layout img = Inr (ye0, ye1)
        \<longrightarrow> imageToBBox d layout img =
              Inr \<lparr>bbox.x = xe0, bbox.y = ye1,
                   bbox.width = js_sub xe1 xe0, bbox.height = js_sub ye0 ye1\<rparr>)
   \<and> (image.xanchor img \<notin> {''left'', ''center'', ''right''} \<longrightarrow>
        imageToBBox d layout img = Inl (''Bad xanchor: '' @ image.xanchor img))
   \<and> (image.xanchor img \<in> {''left'', ''center'', ''right''} \<and>
      image.yanchor img \<notin> {''top'', ''middle'', ''bottom''} \<longrightarrow>
        imageToBBox d layout img = Inl (''Bad yanchor: '' @ image.yanchor img))"
proof (intro conjI impI allI)
  assume "image.xanchor img \<notin> {''left'', ''center'', ''right''}"
  then show "imageToBBox d layout img = Inl (''Bad xanchor: '' @ image.xanchor img)"
    by (simp add: imageToBBox_def image_x_edges_def Let_def)
next
  assume "image.xanchor img \<in> {''left'', ''center'', ''right''} \<and>
      image.yanchor img \<notin> {''top'', ''middle'', ''bottom''}"
  then have e: "image_y_edges d layout img = Inl (''Bad yanchor: '' @ image.yanchor img)"
    and "\<exists>e. image_x_edges d layout img = Inr e"
    by (auto simp add: image_x_edges_def image_y_edges_def Let_def)
  then show "imageToBBox d layout img = Inl (''Bad yanchor: '' @ image.yanchor img)"
    by (auto simp add: imageToBBox_def)
qed (simp_all add: image_x_edges_def image_y_edges_def imageToBBox_def Let_def
       map_offset_default)

text \<open>The theorem at an image anchored at its centre and its top, in the sample environment.\<close>

theorem image_anchor_edges_witness:
  "image.xanchor (sample_image ''x2 domain'' ''y'' ''center'' ''top'') = ''center''
   \<and> image.yanchor (sample_image ''x2 domain'' ''y'' ''center'' ''top'') = ''top''
   \<and> image_x_edges sample_deps () (sample_image ''x2 domain'' ''y'' ''center'' ''top'')
       = Inr (Fin 220, Fin 280)
   \<and> image_y_edges sample_deps () (sample_image ''x2 domain'' ''y'' ''center'' ''top'')
       = Inr (Fin 50, Fin 150)
   \<and> imageToBBox sample_deps () (sample_image ''x2 domain'' ''y'' ''center'' ''top'')
       = Inr \<lparr>bbox.x = Fin 220, bbox.y = Fin 150, bbox.width = Fin 60, bbox.height = Fin (- 100)\<rparr>"
proof -
  let ?img = "sample_image ''x2 domain'' ''y'' ''center'' ''top''"
  note t = image_anchor_edges [of ?img sample_deps "()"]
  have a: "image.xanchor ?img = ''center''" "image.yanchor ?img = ''top''"
    by (simp_all add: sample_image_def)
  have ex: "image_x_edges sample_deps () ?img = Inr (Fin 220, Fin 280)"
    using t a by (simp add: sample_image_def map_offset_shift sample_map_domain)
  have ey: "image_y_edges sample_deps () ?img = Inr (Fin 50, Fin 150)"
    using t a by (simp add: sample_image_def map_offset_shift sample_map_range_y)
  have "imageToBBox sample_deps () ?img
       = Inr \<lparr>bbox.x = Fin 220, bbox.y = Fin 150, bbox.width = Fin 60, bbox.height = Fin (- 100)\<rparr>"
    using t ex ey by simp
  with a ex ey show ?thesis by simp
qed

text \<open>
  Claim C3 as stated has \<^verbatim>\<open>top\<close> give \<open>(y0, y1) = (map(y, 0), map(y, sizey))\<close>. For the
  image with \<open>y = 1\<close>, \<open>sizey = 2\<close> and \<^verbatim>\<open>yanchor: 'top'\<close> in the sample environment that
  pair is \<open>(150, 250)\<close>, and the function computes \<open>(map(y, -sizey), map(y, 0)) = (50, 150)\<close>.
\<close>

theorem image_top_anchor_counterexample:
  "image.yanchor (sample_image ''x'' ''y'' ''left'' ''top'') = ''top''
   \<and> image.y (sample_image ''x'' ''y'' ''left'' ''top'') = Fin 1
   \<and> image.sizey (sample_image ''x'' ''y'' ''left'' ''top'') = Fin 2
   \<and> image_y_edges sample_deps () (sample_image ''x'' ''y'' ''left'' ''top'')
       = Inr (Fin 50, Fin 150)
   \<and> mapAROCoordToPixel sample_deps () ''yref'' ''y'' (Fin 1) (Some (Fin 0)) (Some True) = Fin 150
   \<and> mapAROCoordToPixel sample_deps () ''yref'' ''y'' (Fin 1) (Some (Fin 2)) (Some True) = Fin 250
   \<and> image_y_edges sample_deps () (sample_image ''x'' ''y'' ''left'' ''top'')
       \<noteq> Inr (mapAROCoordToPixel sample_deps () ''yref'' ''y'' (Fin 1) (Some (Fin 0)) (Some True),
              mapAROCoordToPixel sample_deps () ''yref'' ''y'' (Fin 1) (Some (Fin 2)) (Some True))"
  by (simp add: image_y_edges_def sample_image_def map_offset_shift sample_map_range_y)

text \<open>
  Claim C4. On each axis the arrow coordinate is a pixel length measured from the mapped
  anchor exactly when the kind of the arrow reference is \<^verbatim>\<open>pixel\<close> or differs from the kind
  of the position reference; otherwise it is a coordinate mapped along the position's own
  reference, and the arrow's length is its pixel minus the anchor's. The mode of the x
  arrow depends on \<^verbatim>\<open>axref\<close> and \<^verbatim>\<open>xref\<close> only and that of the y arrow on \<^verbatim>\<open>ayref\<close> and
  \<^verbatim>\<open>yref\<close> only. When \<^verbatim>\<open>axref\<close> is of kind \<^verbatim>\<open>pixel\<close> the arrow's length along x is \<^verbatim>\<open>ax\<close>
  itself, whatever the axis type and the layout: with \<^verbatim>\<open>ax: 25\<close> the endpoint is the
  anchor's pixel plus 25.
\<close>

theorem annotation_arrow_mode:
  fixes d :: "('l, 'n) aro_deps" and layout :: 'l
    and x0 y0 ax ay :: jsnum
    and xref yref axref ayref xaxistype yaxistype :: string
  shows
    "let r = annotationTest d layout x0 y0 ax ay xref yref axref ayref xaxistype yaxistype;
         x0' = (if getRefType d xref = ''range'' \<and> xaxistype = ''log'' then js_log10 x0 else x0);
         ax' = (if getRefType d axref = ''range'' \<and> xaxistype = ''log'' then js_log10 ax else ax);
         y0' = (if getRefType d yref = ''range'' \<and> yaxistype = ''log'' then js_log10 y0 else y0);
         ay' = (if getRefType d ayref = ''range'' \<and> yaxistype = ''log'' then js_log10 ay else ay)
     in (axpixels r \<longleftrightarrow>
           getRefType d axref = ''pixel'' \<or> getRefType d axref \<noteq> getRefType d xref)
      \<and> (aypixels r \<longleftrightarrow>
           getRefType d ayref = ''pixel'' \<or> getRefType d ayref \<noteq> getRefType d yref)
      \<and> xabspixels r = mapAROCoordToPixel d layout ''xref'' xref x0' (Some (Fin 0)) (Some True)
      \<and> yabspixels r = mapAROCoordToPixel d layout ''yref'' yref y0' (Some (Fin 0)) (Some True)
      \<and> (axpixels r \<longrightarrow> xpixels r = ax')
      \<and> (\<not> axpixels r \<longrightarrow>
           xpixels r = js_sub (mapAROCoordToPixel d layout ''xref'' xref ax' (Some (Fin 0))
                                 (Some True))
                              (xabspixels r))
      \<and> (aypixels r \<longrightarrow> ypixels r = ay')
      \<and> (\<not> aypixels r \<longrightarrow>
           ypixels r = js_sub (mapAROCoordToPixel d layout ''yref'' yref ay' (Some (Fin 0))
                                 (Some True))
                              (yabspixels r))
      \<and> (getRefType d axref = ''pixel'' \<longrightarrow> axpixels r \<and> xpixels r = ax)
      \<and> (getRefType d ayref = ''pixel'' \<longrightarrow> aypixels r \<and> ypixels r = ay)"
  by (simp add: annotationTest_def aroFromParams_annotation_def Let_def)

text \<open>
  The theorem in the sample environment, on the log axis \<^verbatim>\<open>x3\<close>: the x arrow is given in
  pixels (\<^verbatim>\<open>axref: 'pixel'\<close>, \<^verbatim>\<open>ax: 25\<close>) while the y arrow is a coordinate of the axis \<^verbatim>\<open>y\<close>.
\<close>

theorem annotation_arrow_mode_witness:
  "getRefType sample_deps ''pixel'' = ''pixel''
   \<and> getRefType sample_deps ''x3'' = ''range''
   \<and> getRefType sample_deps ''y'' = ''range''
   \<and> axpixels (annotationTest sample_deps () (Fin 100) (Fin 1) (Fin 25) (Fin 2)
                 ''x3'' ''y'' ''pixel'' ''y'' ''log'' ''linear'')
   \<and> \<not> aypixels (annotationTest sample_deps () (Fin 100) (Fin 1) (Fin 25) (Fin 2)
                 ''x3'' ''y'' ''pixel'' ''y'' ''log'' ''linear'')
   \<and> xpixels (annotationTest sample_deps () (Fin 100) (Fin 1) (Fin 25) (Fin 2)
                 ''x3'' ''y'' ''pixel'' ''y'' ''log'' ''linear'') = Fin 25
   \<and> ypixels (annotationTest sample_deps () (Fin 100) (Fin 1) (Fin 25) (Fin 2)
                 ''x3'' ''y'' ''pixel'' ''y'' ''log'' ''linear'') = Fin 50"
  using annotation_arrow_mode [of sample_deps "()" "Fin 100" "Fin 1" "Fin 25" "Fin 2"
      "''x3''" "''y''" "''pixel''" "''y''" "''log''" "''linear''"]
  by (simp add: Let_def sample_simps(1) getRefType_spec_samples map_offset_shift
      sample_map_range_y)

text \<open>
  Claim C5. The box of a shape: \<open>x\<close> is the pixel of \<open>x0\<close> along \<open>xref\<close>, the width is the
  pixel of \<open>x1\<close> minus \<open>x\<close>; \<open>y\<close> is the pixel of \<open>y1\<close> along \<open>yref\<close> (the vertical
  coordinates are swapped) and the height is the pixel of \<open>y0\<close> minus \<open>y\<close>. Each pixel is
  \<^verbatim>\<open>mapAROCoordToPixel\<close> with no offset and the log flag left undefined.
\<close>

theorem shape_bbox:
  "bbox.x (shapeToBBox d layout aro) =
     mapAROCoordToPixel d layout ''xref'' (shape.xref aro) (shape.x0 aro) None None
   \<and> bbox.width (shapeToBBox d layout aro) =
     js_sub (mapAROCoordToPixel d layout ''xref'' (shape.xref aro) (shape.x1 aro) None None)
            (bbox.x (shapeToBBox d layout aro))
   \<and> bbox.y (shapeToBBox d layout aro) =
     mapAROCoordToPixel d layout ''yref'' (shape.yref aro) (shape.y1 aro) None None
   \<and> bbox.height (shapeToBBox d layout aro) =
     js_sub (mapAROCoordToPixel d layout ''yref'' (shape.yref aro) (shape.y0 aro) None None)
            (bbox.y (shapeToBBox d layout aro))"
  by (simp add: shapeToBBox_def Let_def)

text \<open>
  Claim C6, as amended. Let the mapping of the image's x reference be affine, a data
  value \<open>v\<close> landing at pixel \<open>a + k * v\<close>, so that a length \<open>sizex / 2\<close> is worth
  \<open>k * (sizex / 2)\<close> pixels. Then, all other fields equal, the \<open>x\<close> of the box anchored
  \<^verbatim>\<open>left\<close> is the \<open>x\<close> of the box anchored \<^verbatim>\<open>center\<close> plus (not minus) that pixel length.
  This holds for every \<open>sizex\<close>, positive or not.
\<close>

theorem image_left_vs_center:
  assumes affine: "\<forall>v. mapAROCoordToPixel d layout ''xref'' (image.xref img) (Fin v) None
                          (Some True) = Fin (a + k * v)"
    and xv: "image.x img = Fin xv"
    and sv: "image.sizex img = Fin sv"
    and ya: "image.yanchor img \<in> {''top'', ''middle'', ''bottom''}"
  shows "\<exists>bl bc L C.
           imageToBBox d layout (img\<lparr>image.xanchor := ''left''\<rparr>) = Inr bl
         \<and> imageToBBox d layout (img\<lparr>image.xanchor := ''center''\<rparr>) = Inr bc
         \<and> bbox.x bl = Fin L \<and> bbox.x bc = Fin C
         \<and> L = C + k * (sv / 2)"
proof -
  from image_y_edges_defined [OF ya, of d layout] obtain ye0 ye1 where
    ye: "image_y_edges d layout img = Inr (ye0, ye1)" by blast
  let ?m = "\<lambda>v. mapAROCoordToPixel d layout ''xref'' (image.xref img) (Fin v) None (Some True)"
  have left: "image_x_edges d layout (img\<lparr>image.xanchor := ''left''\<rparr>) =
      Inr (Fin (a + k * xv), ?m (xv + sv))"
    using affine by (simp add: image_x_edges_def Let_def xv sv map_offset_shift)
  have center: "image_x_edges d layout (img\<lparr>image.xanchor := ''center''\<rparr>) =
      Inr (Fin (a + k * (xv + - sv * 0.5)), ?m (xv + sv * 0.5))"
    using affine by (simp add: image_x_edges_def Let_def xv sv map_offset_shift)
  have bl: "bbox.x (case imageToBBox d layout (img\<lparr>image.xanchor := ''left''\<rparr>) of
                      Inr b \<Rightarrow> b) = Fin (a + k * xv)"
    and bl': "\<exists>b. imageToBBox d layout (img\<lparr>image.xanchor := ''left''\<rparr>) = Inr b"
    by (simp_all add: imageToBBox_def left image_y_edges_xanchor ye)
  have bc: "bbox.x (case imageToBBox d layout (img\<lparr>image.xanchor := ''center''\<rparr>) of
                      Inr b \<Rightarrow> b) = Fin (a + k * (xv + - sv * 0.5))"
    and bc': "\<exists>b. imageToBBox d layout (img\<lparr>image.xanchor := ''center''\<rparr>) = Inr b"
    by (simp_all add: imageToBBox_def center image_y_edges_xanchor ye)
  from bl' obtain b1 where b1: "imageToBBox d layout (img\<lparr>image.xanchor := ''left''\<rparr>) = Inr b1"
    by blast
  from bc' obtain b2 where b2: "imageToBBox d layout (img\<lparr>image.xanchor := ''center''\<rparr>) = Inr b2"
    by blast
  have x1: "bbox.x b1 = Fin (a + k * xv)" using bl b1 by simp
  have x2: "bbox.x b2 = Fin (a + k * (xv + - sv * 0.5))" using bc b2 by simp
  have "a + k * xv = (a + k * (xv + - sv * 0.5)) + k * (sv / 2)"
    by (simp add: algebra_simps)
  with b1 b2 x1 x2 show ?thesis by blast
qed

text \<open>The theorem on the domain of axis \<^verbatim>\<open>x2\<close> of the sample environment, of slope 300.\<close>

theorem image_left_vs_center_witness:
  "(\<forall>v. mapAROCoordToPixel sample_deps ()  ''xref''
          (image.xref (sample_image ''x2 domain'' ''y'' ''right'' ''top'')) (Fin v) None
          (Some True) = Fin (100 + 300 * v))
   \<and> image.x (sample_image ''x2 domain'' ''y'' ''right'' ''top'') = Fin 0.5
   \<and> image.sizex (sample_image ''x2 domain'' ''y'' ''right'' ''top'') = Fin 0.2
   \<and> image.yanchor (sample_image ''x2 domain'' ''y'' ''right'' ''top'')
        \<in> {''top'', ''middle'', ''bottom''}
   \<and> (\<exists>bl bc L C.
         imageToBBox sample_deps ()
           ((sample_image ''x2 domain'' ''y'' ''right'' ''top'')\<lparr>image.xanchor := ''left''\<rparr>) = Inr bl
       \<and> imageToBBox sample_deps ()
           ((sample_image ''x2 domain'' ''y'' ''right'' ''top'')\<lparr>image.xanchor := ''center''\<rparr>) = Inr bc
       \<and> bbox.x bl = Fin L \<and> bbox.x bc = Fin C \<and> L = C + 300 * (0.2 / 2))"
proof -
  let ?img = "sample_image ''x2 domain'' ''y'' ''right'' ''top''"
  have h1: "\<forall>v. mapAROCoordToPixel sample_deps () ''xref'' (image.xref ?img) (Fin v) None
                  (Some True) = Fin (100 + 300 * v)"
    by (simp add: sample_image_def sample_map_domain)
  have h2: "image.x ?img = Fin 0.5" and h3: "image.sizex ?img = Fin 0.2"
    and h4: "image.yanchor ?img \<in> {''top'', ''middle'', ''bottom''}"
    by (simp_all add: sample_image_def)
  from image_left_vs_center [OF h1 h2 h3 h4] h1 h2 h3 h4 show ?thesis by blast
qed

text \<open>
  Claim C6 as stated fails on the domain of axis \<^verbatim>\<open>x2\<close> (pixels 100 to 400) for \<open>x = 0.5\<close> and
  \<open>sizex = 0.2\<close>: the box anchored left has \<open>x = 250\<close>, the box anchored center has
  \<open>x = 220\<close>, half the size is worth 30 pixels, and \<open>250\<close> is not \<open>220 - 30\<close> (nor is it
  220 minus the pixel of the value \<open>sizex / 2\<close>, which is 130).
\<close>

theorem image_left_vs_center_counterexample:
  "imageToBBox sample_deps () (sample_image ''x2 domain'' ''y'' ''left'' ''top'')
     = Inr \<lparr>bbox.x = Fin 250, bbox.y = Fin 150, bbox.width = Fin 60, bbox.height = Fin (- 100)\<rparr>
   \<and> imageToBBox sample_deps () (sample_image ''x2 domain'' ''y'' ''center'' ''top'')
     = Inr \<lparr>bbox.x = Fin 220, bbox.y = Fin 150, bbox.width = Fin 60, bbox.height = Fin (- 100)\<rparr>
   \<and> js_sub (mapDomainToPixel sample_deps () ''x2'' (Fin (0.2 / 2)))
            (mapDomainToPixel sample_deps () ''x2'' (Fin 0)) = Fin 30
   \<and> Fin 250 \<noteq> js_sub (Fin 220) (Fin 30)
   \<and> Fin 250 \<noteq> js_sub (Fin 220) (mapDomainToPixel sample_deps () ''x2'' (Fin (0.2 / 2)))"
  by (simp add: imageToBBox_def image_x_edges_def image_y_edges_def sample_image_def
      map_offset_shift sample_map_domain sample_map_range_y sample_simps)

text \<open>
  Claim C10. Every call \<^verbatim>\<open>imageToBBox\<close> makes to the mapper, for the horizontal edges as for
  the vertical ones, carries \<^verbatim>\<open>nolog = true\<close>: forcing the flag that reaches
  \<^verbatim>\<open>mapRangeToPixel\<close> to \<^verbatim>\<open>true\<close> changes neither pair of edges nor the box (or the error).
  Hence with a range mapper that takes the logarithm on log axes unless the flag is set,
  the box is that of the plain scaling: no coordinate of an image receives a log10.
\<close>

theorem image_bbox_nolog:
  "image_x_edges d layout img =
     image_x_edges (d\<lparr>mapRangeToPixel := \<lambda>l n v nolog. mapRangeToPixel d l n v (Some True)\<rparr>)
       layout img
   \<and> image_y_edges d layout img =
     image_y_edges (d\<lparr>mapRangeToPixel := \<lambda>l n v nolog. mapRangeToPixel d l n v (Some True)\<rparr>)
       layout img
   \<and> imageToBBox d layout img =
     imageToBBox (d\<lparr>mapRangeToPixel := \<lambda>l n v nolog. mapRangeToPixel d l n v (Some True)\<rparr>)
       layout img
   \<and> imageToBBox (d\<lparr>mapRangeToPixel := logAwareRange islog scale\<rparr>) layout img =
     imageToBBox (d\<lparr>mapRangeToPixel := \<lambda>l n v nolog. scale l n v\<rparr>) layout img"
proof -
  let ?d = "d\<lparr>mapRangeToPixel := \<lambda>l n v nolog. mapRangeToPixel d l n v (Some True)\<rparr>"
  have ex: "image_x_edges d layout img = image_x_edges ?d layout img"
    by (simp add: image_x_edges_def Let_def map_forced_nolog)
  have ey: "image_y_edges d layout img = image_y_edges ?d layout img"
    by (simp add: image_y_edges_def Let_def map_forced_nolog)
  have b: "imageToBBox d layout img = imageToBBox ?d layout img"
    by (simp only: imageToBBox_def ex ey)
  have lx: "image_x_edges (d\<lparr>mapRangeToPixel := logAwareRange islog scale\<rparr>) layout img =
      image_x_edges (d\<lparr>mapRangeToPixel := \<lambda>l n v nolog. scale l n v\<rparr>) layout img"
    by (simp add: image_x_edges_def Let_def map_logAware_nolog)
  have ly: "image_y_edges (d\<lparr>mapRangeToPixel := logAwareRange islog scale\<rparr>) layout img =
      image_y_edges (d\<lparr>mapRangeToPixel := \<lambda>l n v nolog. scale l n v\<rparr>) layout img"
    by (simp add: image_y_edges_def Let_def map_logAware_nolog)
  have l: "imageToBBox (d\<lparr>mapRangeToPixel := logAwareRange islog scale\<rparr>) layout img =
     imageToBBox (d\<lparr>mapRangeToPixel := \<lambda>l n v nolog. scale l n v\<rparr>) layout img"
    by (simp only: imageToBBox_def lx ly)
  from ex ey b l show ?thesis by blast
qed

end
